theory Spec2Isabelle
  imports Main "HOL-Library.Sublist"
begin

section \<open>The local file system, the remote archive and the log\<close>

text \<open>
  The program \<^verbatim>\<open>nsidc_icesat2_sync.py\<close> reads two things of the local file system for
  a path: whether something exists there (\<^verbatim>\<open>os.access(p, os.F_OK)\<close>,
  \<^verbatim>\<open>os.path.exists(p)\<close>) and its modification time (\<^verbatim>\<open>os.stat(p).st_mtime\<close>).
  It writes files (\<^verbatim>\<open>open(p, 'wb')\<close>, \<^verbatim>\<open>shutil.copyfileobj\<close>, \<^verbatim>\<open>os.utime\<close>,
  \<^verbatim>\<open>open(p, 'w')\<close> and \<^verbatim>\<open>print\<close> for the log) and creates directories
  (\<^verbatim>\<open>os.makedirs\<close>). Times are whole seconds since the Unix epoch: the program
  compares the time of a local file only with the whole number \<^verbatim>\<open>remote_mtime\<close>, and
  \<^verbatim>\<open>remote_mtime > t\<close> holds for \<^verbatim>\<open>t\<close> exactly when it holds for \<^verbatim>\<open>t\<close> rounded down.
  The permission bits of a node are not recorded; of \<^verbatim>\<open>MODE\<close> the model keeps that
  \<^verbatim>\<open>os.mkdir\<close> and \<^verbatim>\<open>os.chmod\<close> raise \<^verbatim>\<open>TypeError\<close> when it is \<^verbatim>\<open>None\<close>.
\<close>

datatype node = File (st_mtime: int) (content: string) | Dir (st_mtime: int)

text \<open>
  A node is found under the list of the names that lead to it. The path of the
  program is a string: it is cut at the slashes, empty pieces and the piece \<^verbatim>\<open>.\<close> are
  dropped, and a path that starts with a slash leads from the root, which is the
  name \<^verbatim>\<open>/\<close> in front of the list, any other from the current directory, the empty
  list. The empty string names nothing. A path that ends with a slash or with the
  piece \<^verbatim>\<open>.\<close> names a directory or nothing. The piece \<^verbatim>\<open>..\<close> is not interpreted, and
  there are no symbolic links.
\<close>

type_synonym key = "string list"

type_synonym filesystem = "key \<rightharpoonup> node"

fun pieces :: "string \<Rightarrow> string list" where
  "pieces [] = [[]]"
| "pieces (c # cs) =
     (if c = CHR ''/'' then [] # pieces cs
      else (case pieces cs of [] \<Rightarrow> [[c]] | p # ps \<Rightarrow> (c # p) # ps))"

definition components :: "string \<Rightarrow> key" where
  "components s = filter (\<lambda>p. p \<noteq> [] \<and> p \<noteq> ''.'') (pieces s)"

definition resolve :: "string \<Rightarrow> key option" where
  "resolve s =
     (if s = [] then None
      else Some ((if hd s = CHR ''/'' then [''/''] else []) @ components s))"

definition wants_dir :: "string \<Rightarrow> bool" where
  "wants_dir s = (last (pieces s) = [] \<or> last (pieces s) = ''.'')"

text \<open>
  The current directory and the root exist; until the run stamps them the model
  gives them the time 0.
\<close>

definition node_at :: "filesystem \<Rightarrow> key \<Rightarrow> node option" where
  "node_at f k =
     (case f k of
        Some n \<Rightarrow> Some n
      | None \<Rightarrow> if k = [] \<or> k = [''/''] then Some (Dir 0) else None)"

definition is_dir :: "filesystem \<Rightarrow> key \<Rightarrow> bool" where
  "is_dir f k = (case node_at f k of Some (Dir t) \<Rightarrow> True | _ \<Rightarrow> False)"

definition ancestors :: "key \<Rightarrow> key list" where
  "ancestors k = map (\<lambda>n. take n k) [0..<length k]"

text \<open>
  \<^verbatim>\<open>os.stat(p)\<close>: the node that \<^verbatim>\<open>p\<close> names, when every name on the way to it is a
  directory; \<^verbatim>\<open>None\<close> where \<^verbatim>\<open>os.stat\<close> raises, which is where \<^verbatim>\<open>os.path.exists(p)\<close> and
  \<^verbatim>\<open>os.access(p, os.F_OK)\<close> are false.
\<close>

definition stat :: "filesystem \<Rightarrow> string \<Rightarrow> node option" where
  "stat f p =
     (case resolve p of
        None \<Rightarrow> None
      | Some k \<Rightarrow>
          if list_all (is_dir f) (ancestors k) then
            (case node_at f k of
               Some (File t c) \<Rightarrow> if wants_dir p then None else Some (File t c)
             | r \<Rightarrow> r)
          else None)"

text \<open>
  What the two \<^verbatim>\<open>print(..., file=fid)\<close> statements of a transfer, the one of a product
  and the one of the head of the log write: the remote file, the local file and the
  label \<^verbatim>\<open>OVERWRITE\<close>; the line \<^verbatim>\<open>PRODUCT=p\<close>; the day of the log.
\<close>

datatype event = Product string | Transfer string string string | Title string

text \<open>
  \<^verbatim>\<open>fs\<close> is the local file system and \<^verbatim>\<open>fid\<close> what the run has printed to \<^verbatim>\<open>fid\<close> so
  far, be it the standard output or the log file.
\<close>

record state =
  fs :: filesystem
  fid :: "event list"

text \<open>The exceptions of the Python run that the model distinguishes.\<close>

datatype py_error =
  URLError | ConnectionError | IsADirectoryError | NotADirectoryError | FileNotFoundError
  | FileExistsError | TypeError | IndexError | ValueError | ReError

text \<open>
  The answer of \<^verbatim>\<open>urllib2.urlopen\<close> for a file and of the reads that follow:
  \<^verbatim>\<open>urlopen\<close> raises; or the whole body is read; or the server closes the connection
  after a part of the body and \<^verbatim>\<open>read\<close> returns the empty string as at the end of a
  body, so that \<^verbatim>\<open>shutil.copyfileobj\<close> ends as after a whole body; or a \<^verbatim>\<open>read\<close> raises
  after a part of the body has been copied.
\<close>

datatype response = Refused | Body string | Short string | Broken string

text \<open>
  The remote archive, the clock and the calendar of the machine. \<^verbatim>\<open>index_page url\<close> is
  what the two XPath queries return for the page at \<^verbatim>\<open>url\<close>: the \<^verbatim>\<open>href\<close>s of the
  \<^verbatim>\<open>indexcolname\<close> cells and the texts of the \<^verbatim>\<open>indexcollastmod\<close> cells, or the
  error raised by \<^verbatim>\<open>urlopen\<close> or the parser. \<^verbatim>\<open>wall_clock\<close> is the time the operating
  system stamps on what it writes during the run, \<^verbatim>\<open>today\<close> the result of
  \<^verbatim>\<open>time.strftime('%Y-%m-%d', time.localtime())\<close>.
\<close>

record world =
  index_page :: "string \<Rightarrow> py_error + (string list \<times> string list)"
  urlopen :: "string \<Rightarrow> response"
  wall_clock :: int
  today :: string

type_synonym outcome = "py_error option \<times> state"

section \<open>Writing files and creating directories\<close>

text \<open>
  \<^verbatim>\<open>open(p, 'wb')\<close> and \<^verbatim>\<open>open(p, 'w')\<close>: the file is created empty, which stamps the
  directory it is created in, or an existing file is emptied. It raises when a name
  on the way is missing or is not a directory, and when \<^verbatim>\<open>p\<close> names a directory.
\<close>

definition open_w :: "int \<Rightarrow> string \<Rightarrow> filesystem \<Rightarrow> py_error + key \<times> filesystem" where
  "open_w now p f =
     (case resolve p of
        None \<Rightarrow> Inl FileNotFoundError
      | Some k \<Rightarrow>
          (case find (\<lambda>a. \<not> is_dir f a) (ancestors k) of
             Some a \<Rightarrow> Inl (if node_at f a = None then FileNotFoundError else NotADirectoryError)
           | None \<Rightarrow>
               (case node_at f k of
                  Some (Dir t) \<Rightarrow> Inl IsADirectoryError
                | Some (File t c) \<Rightarrow>
                    if wants_dir p then Inl NotADirectoryError
                    else Inr (k, f(k \<mapsto> File now []))
                | None \<Rightarrow>
                    if wants_dir p then Inl IsADirectoryError
                    else Inr (k, f(butlast k \<mapsto> Dir now, k \<mapsto> File now [])))))"

text \<open>
  \<^verbatim>\<open>os.mkdir\<close> for the node \<^verbatim>\<open>k\<close>: it raises when the node exists and when the node
  above it is missing or is not a directory; otherwise it creates the directory,
  which stamps the directory it is created in.
\<close>

definition mkdir :: "int \<Rightarrow> key \<Rightarrow> filesystem \<Rightarrow> py_error + filesystem" where
  "mkdir now k f =
     (if node_at f k \<noteq> None then Inl FileExistsError
      else if is_dir f (butlast k) then Inr (f(butlast k \<mapsto> Dir now, k \<mapsto> Dir now))
      else Inl (if node_at f (butlast k) = None then FileNotFoundError
                else NotADirectoryError))"

text \<open>
  The nodes on the way to a path, from the outermost: a directory that exists is
  passed, a missing one is created, and a file in the way raises.
\<close>

fun mkdir_chain :: "int \<Rightarrow> key list \<Rightarrow> filesystem \<Rightarrow> py_error option \<times> filesystem" where
  "mkdir_chain now [] f = (None, f)"
| "mkdir_chain now (k # ks) f =
     (case node_at f k of
        Some (Dir t) \<Rightarrow> mkdir_chain now ks f
      | Some (File t c) \<Rightarrow> (Some NotADirectoryError, f)
      | None \<Rightarrow>
          (case mkdir now k f of
             Inl e \<Rightarrow> (Some e, f)
           | Inr f' \<Rightarrow> mkdir_chain now ks f'))"

text \<open>
  \<^verbatim>\<open>os.makedirs(p, MODE) if not os.path.exists(p) else None\<close>. \<^verbatim>\<open>os.makedirs\<close> creates
  the missing directories on the way to \<^verbatim>\<open>p\<close> with its default mode and then calls
  \<^verbatim>\<open>os.mkdir(p, MODE)\<close>, which raises \<^verbatim>\<open>TypeError\<close> for the mode \<^verbatim>\<open>None\<close>. For a path
  that ends with the piece \<^verbatim>\<open>.\<close> it returns once the directories on the way exist.
\<close>

definition makedirs :: "world \<Rightarrow> nat option \<Rightarrow> string \<Rightarrow> state \<Rightarrow> outcome" where
  "makedirs w mode p st =
     (if stat (fs st) p \<noteq> None then (None, st)
      else case resolve p of
        None \<Rightarrow> (Some FileNotFoundError, st)
      | Some k \<Rightarrow>
          if last (pieces p) = ''.'' then
            (case mkdir_chain (wall_clock w) (tl (ancestors k) @ [k]) (fs st) of
               (e, f) \<Rightarrow> (e, st\<lparr>fs := f\<rparr>))
          else
            (case mkdir_chain (wall_clock w) (tl (ancestors k)) (fs st) of
               (Some e, f) \<Rightarrow> (Some e, st\<lparr>fs := f\<rparr>)
             | (None, f) \<Rightarrow>
                 (case mode of
                    None \<Rightarrow> (Some TypeError, st\<lparr>fs := f\<rparr>)
                  | Some m \<Rightarrow>
                      (case mkdir (wall_clock w) k f of
                         Inl e \<Rightarrow> (Some e, st\<lparr>fs := f\<rparr>)
                       | Inr f' \<Rightarrow> (None, st\<lparr>fs := f'\<rparr>)))))"

text \<open>
  \<^verbatim>\<open>print(..., file=fid)\<close>: \<^verbatim>\<open>fid\<close> is the standard output or the log file, opened
  under the key \<^verbatim>\<open>k\<close>. The text that a statement prints is added to the log file;
  that Python keeps it in a buffer until the file is closed or the interpreter ends is
  not modelled.
\<close>

datatype sink = Stdout | LogFile key

fun render :: "event \<Rightarrow> string" where
  "render (Product p) = ''PRODUCT='' @ p @ [CHR 0x0A]"
| "render (Transfer remote_file local_file label) =
     remote_file @ '' --> '' @ [CHR 0x0A, CHR 0x09] @ local_file @ label @ [CHR 0x0A, CHR 0x0A]"
| "render (Title day) = ''ICESat-2 Data Sync Log ('' @ day @ '')'' @ [CHR 0x0A]"

definition content_at :: "filesystem \<Rightarrow> key \<Rightarrow> string" where
  "content_at f k = (case f k of Some (File t c) \<Rightarrow> c | _ \<Rightarrow> [])"

definition print_to :: "sink \<Rightarrow> int \<Rightarrow> event \<Rightarrow> state \<Rightarrow> state" where
  "print_to out now e st =
     (case out of
        Stdout \<Rightarrow> st\<lparr>fid := fid st @ [e]\<rparr>
      | LogFile k \<Rightarrow>
          st\<lparr>fid := fid st @ [e],
             fs := (fs st)(k \<mapsto> File now (content_at (fs st) k @ render e))\<rparr>)"

section \<open>\<^verbatim>\<open>http_pull_file\<close>\<close>

text \<open>
  Lines 221 to 233: the flag \<^verbatim>\<open>TEST\<close> and the label \<^verbatim>\<open>OVERWRITE\<close>.
\<close>

definition pull_test :: "filesystem \<Rightarrow> int \<Rightarrow> string \<Rightarrow> bool \<times> string" where
  "pull_test f remote_mtime local_file =
     (case stat f local_file of
        Some n \<Rightarrow>
          if remote_mtime > st_mtime n then (True, '' (overwrite)'')
          else (False, '' (clobber)'')
      | None \<Rightarrow> (True, '' (new)''))"

text \<open>
  Lines 249 to 253: the local file opened with \<^verbatim>\<open>'wb'\<close>, the chunked copy of the
  bytes \<^verbatim>\<open>b\<close>, then \<^verbatim>\<open>os.utime\<close> and \<^verbatim>\<open>os.chmod\<close>. A copy that raises leaves the part
  read so far, stamped by the operating system. A copy that ends, after the whole
  body or after a part of it, reaches \<^verbatim>\<open>os.utime\<close>, which gives the file the remote
  time, and \<^verbatim>\<open>os.chmod\<close>, which raises for the mode \<^verbatim>\<open>None\<close>. Lines 243 to 253 are
  \<^verbatim>\<open>fetch\<close>: the request first.
\<close>

definition write_local ::
    "world \<Rightarrow> bool \<Rightarrow> string \<Rightarrow> int \<Rightarrow> string \<Rightarrow> nat option \<Rightarrow> state \<Rightarrow> outcome" where
  "write_local w raises b remote_mtime local_file MODE st =
     (case open_w (wall_clock w) local_file (fs st) of
        Inl e \<Rightarrow> (Some e, st)
      | Inr (k, f) \<Rightarrow>
          if raises then (Some ConnectionError, st\<lparr>fs := f(k \<mapsto> File (wall_clock w) b)\<rparr>)
          else (case MODE of
                  None \<Rightarrow> (Some TypeError, st\<lparr>fs := f(k \<mapsto> File remote_mtime b)\<rparr>)
                | Some m \<Rightarrow> (None, st\<lparr>fs := f(k \<mapsto> File remote_mtime b)\<rparr>)))"

definition fetch ::
    "world \<Rightarrow> string \<Rightarrow> int \<Rightarrow> string \<Rightarrow> nat option \<Rightarrow> state \<Rightarrow> outcome" where
  "fetch w remote_file remote_mtime local_file MODE st =
     (case urlopen w remote_file of
        Refused \<Rightarrow> (Some URLError, st)
      | Body b \<Rightarrow> write_local w False b remote_mtime local_file MODE st
      | Short b \<Rightarrow> write_local w False b remote_mtime local_file MODE st
      | Broken b \<Rightarrow> write_local w True b remote_mtime local_file MODE st)"

definition http_pull_file ::
    "world \<Rightarrow> sink \<Rightarrow> string \<Rightarrow> int \<Rightarrow> string \<Rightarrow> bool \<Rightarrow> bool \<Rightarrow> nat option
      \<Rightarrow> state \<Rightarrow> outcome" where
  "http_pull_file w out remote_file remote_mtime local_file LIST CLOBBER MODE st =
     (let (TEST, OVERWRITE) = pull_test (fs st) remote_mtime local_file in
      if TEST \<or> CLOBBER then
        (let st1 = print_to out (wall_clock w) (Transfer remote_file local_file OVERWRITE) st in
         if \<not> LIST then fetch w remote_file remote_mtime local_file MODE st1
         else (None, st1))
      else (None, st))"

subsection \<open>The transfer decision of the specification\<close>





section \<open>Regular expressions: the fragment of Python's \<^verbatim>\<open>re\<close> the program uses\<close>

text \<open>
  The program builds its two matchers by formatting strings and compiling them with
  \<^verbatim>\<open>re.compile(..., re.VERBOSE)\<close>, and it asks \<^verbatim>\<open>R.match(name)\<close>, which succeeds when
  the pattern matches at the start of \<^verbatim>\<open>name\<close> (not necessarily up to its end). The
  model has the syntax tree of a pattern, a parser from the pattern's text to the tree,
  and a matcher on the tree. Names are ASCII strings: \<^verbatim>\<open>\d\<close> is \<^verbatim>\<open>[0-9]\<close>, and
  \<^verbatim>\<open>.\<close> is every character but the newline.
\<close>

datatype cclass = Lit char | AnyChar | Digit

definition is_digit :: "char \<Rightarrow> bool" where
  "is_digit c = (c \<in> set ''0123456789'')"

fun cmatch :: "cclass \<Rightarrow> char \<Rightarrow> bool" where
  "cmatch (Lit a) c = (c = a)"
| "cmatch AnyChar c = (c \<noteq> CHR 0x0A)"
| "cmatch Digit c = is_digit c"

datatype rexp = Fail | Eps | Sym cclass | Alt rexp rexp | Seq rexp rexp | Star rexp

fun nullable :: "rexp \<Rightarrow> bool" where
  "nullable Fail = False"
| "nullable Eps = True"
| "nullable (Sym k) = False"
| "nullable (Alt a b) = (nullable a \<or> nullable b)"
| "nullable (Seq a b) = (nullable a \<and> nullable b)"
| "nullable (Star a) = True"

fun alt :: "rexp \<Rightarrow> rexp \<Rightarrow> rexp" where
  "alt Fail b = b"
| "alt a Fail = a"
| "alt a b = Alt a b"

fun seq :: "rexp \<Rightarrow> rexp \<Rightarrow> rexp" where
  "seq Fail b = Fail"
| "seq a Fail = Fail"
| "seq Eps b = b"
| "seq a b = Seq a b"

fun deriv :: "char \<Rightarrow> rexp \<Rightarrow> rexp" where
  "deriv c Fail = Fail"
| "deriv c Eps = Fail"
| "deriv c (Sym k) = (if cmatch k c then Eps else Fail)"
| "deriv c (Alt a b) = alt (deriv c a) (deriv c b)"
| "deriv c (Seq a b) =
     (if nullable a then alt (seq (deriv c a) b) (deriv c b) else seq (deriv c a) b)"
| "deriv c (Star a) = seq (deriv c a) (Star a)"

fun re_match :: "rexp \<Rightarrow> string \<Rightarrow> bool" where
  "re_match r [] = nullable r"
| "re_match r (c # cs) = (nullable r \<or> re_match (deriv c r) cs)"

type_synonym frame = "rexp list \<times> (rexp \<times> bool) list"

fun cat_list :: "rexp list \<Rightarrow> rexp" where
  "cat_list [] = Eps"
| "cat_list [r] = r"
| "cat_list (r # rs) = Seq r (cat_list rs)"

fun alt_list :: "rexp list \<Rightarrow> rexp" where
  "alt_list [] = Fail"
| "alt_list [r] = r"
| "alt_list (r # rs) = Alt r (alt_list rs)"

definition branch :: "(rexp \<times> bool) list \<Rightarrow> rexp" where
  "branch items = cat_list (rev (map fst items))"

fun push :: "rexp \<Rightarrow> frame \<Rightarrow> frame" where
  "push r (alts, items) = (alts, (r, False) # items)"

fun next_branch :: "frame \<Rightarrow> frame" where
  "next_branch (alts, items) = (branch items # alts, [])"

fun close_frame :: "frame \<Rightarrow> rexp" where
  "close_frame (alts, items) = alt_list (rev (branch items # alts))"

fun repeat_n :: "nat \<Rightarrow> rexp \<Rightarrow> rexp" where
  "repeat_n 0 r = Eps"
| "repeat_n (Suc 0) r = r"
| "repeat_n (Suc n) r = Seq r (repeat_n n r)"

fun repeat :: "(rexp \<Rightarrow> rexp) \<Rightarrow> frame \<Rightarrow> frame option" where
  "repeat q (alts, []) = None"
| "repeat q (alts, (r, rep) # items) =
     (if rep then None else Some (alts, (q r, True) # items))"

definition WHITESPACE :: "char set" where
  "WHITESPACE = {CHR '' '', CHR 0x09, CHR 0x0A, CHR 0x0D, CHR 0x0B, CHR 0x0C}"

definition is_alnum :: "char \<Rightarrow> bool" where
  "is_alnum c = (c \<in> set ''0123456789abcdefghijklmnopqrstuvwxyzABCDEFGHIJKLMNOPQRSTUVWXYZ'')"

definition digit_val :: "char \<Rightarrow> nat" where
  "digit_val c = of_char c - 48"

datatype mode = Normal | Comment | Escape | Quantified | Opened | Brace | BraceN nat

type_synonym pstate = "mode \<times> frame \<times> frame list"

definition quantify :: "(rexp \<Rightarrow> rexp) \<Rightarrow> frame \<Rightarrow> frame list \<Rightarrow> pstate option" where
  "quantify q fr stk = map_option (\<lambda>fr'. (Quantified, fr', stk)) (repeat q fr)"

definition normal :: "char \<Rightarrow> frame \<Rightarrow> frame list \<Rightarrow> pstate option" where
  "normal c fr stk =
     (if c \<in> WHITESPACE then Some (Normal, fr, stk)
      else if c = CHR ''#'' then Some (Comment, fr, stk)
      else if c = CHR 0x5C then Some (Escape, fr, stk)
      else if c = CHR ''.'' then Some (Normal, push (Sym AnyChar) fr, stk)
      else if c = CHR ''('' then Some (Opened, ([], []), fr # stk)
      else if c = CHR '')'' then
        (case stk of
           [] \<Rightarrow> None
         | up # stk' \<Rightarrow> Some (Normal, push (close_frame fr) up, stk'))
      else if c = CHR ''|'' then Some (Normal, next_branch fr, stk)
      else if c = CHR ''*'' then quantify Star fr stk
      else if c = CHR ''+'' then quantify (\<lambda>r. Seq r (Star r)) fr stk
      else if c = CHR ''?'' then quantify (\<lambda>r. Alt r Eps) fr stk
      else if c = CHR ''{'' then Some (Brace, fr, stk)
      else if c = CHR ''['' \<or> c = CHR ''^'' \<or> c = CHR ''$'' then None
      else Some (Normal, push (Sym (Lit c)) fr, stk))"

fun step :: "pstate option \<Rightarrow> char \<Rightarrow> pstate option" where
  "step None c = None"
| "step (Some (Normal, fr, stk)) c = normal c fr stk"
| "step (Some (Comment, fr, stk)) c =
     Some (if c = CHR 0x0A then Normal else Comment, fr, stk)"
| "step (Some (Escape, fr, stk)) c =
     (if c = CHR ''d'' then Some (Normal, push (Sym Digit) fr, stk)
      else if of_char c < (128 :: nat) \<and> \<not> is_alnum c
        then Some (Normal, push (Sym (Lit c)) fr, stk)
      else None)"
| "step (Some (Quantified, fr, stk)) c =
     (if c = CHR ''?'' then Some (Normal, fr, stk) else normal c fr stk)"
| "step (Some (Opened, fr, stk)) c =
     (if c = CHR ''?'' then None else normal c fr stk)"
| "step (Some (Brace, fr, stk)) c =
     (if is_digit c then Some (BraceN (digit_val c), fr, stk) else None)"
| "step (Some (BraceN n, fr, stk)) c =
     (if c = CHR ''}'' then quantify (repeat_n n) fr stk else None)"

fun finish :: "pstate option \<Rightarrow> rexp option" where
  "finish (Some (m, fr, [])) =
     (if m = Normal \<or> m = Comment \<or> m = Quantified then Some (close_frame fr) else None)"
| "finish _ = None"

definition re_compile :: "string \<Rightarrow> rexp option" where
  "re_compile pat = finish (foldl step (Some (Normal, ([], []), [])) pat)"


text \<open>\<^verbatim>\<open>\d\<close> as it stands in a pattern's text: a backslash and the letter d.\<close>

definition bsd :: string where
  "bsd = [CHR 0x5C, CHR ''d'']"

section \<open>String formatting\<close>

text \<open>\<^verbatim>\<open>'|'.join(xs)\<close>.\<close>

fun join :: "string \<Rightarrow> string list \<Rightarrow> string" where
  "join sep [] = []"
| "join sep [x] = x"
| "join sep (x # y # ys) = x @ sep @ join sep (y # ys)"

text \<open>
  Decimal digits of a natural number, and \<^verbatim>\<open>'{0:d}'.format(i)\<close> and
  \<^verbatim>\<open>'{0:0wd}'.format(i)\<close> for an integer: the sign first, then zeros up to the width.
\<close>

definition digit_char :: "nat \<Rightarrow> char" where
  "digit_char n = ''0123456789'' ! (n mod 10)"

fun dec :: "nat \<Rightarrow> string" where
  "dec n = (if n < 10 then [digit_char n] else dec (n div 10) @ [digit_char n])"

definition zfill :: "nat \<Rightarrow> string \<Rightarrow> string" where
  "zfill w s = replicate (w - length s) (CHR ''0'') @ s"

definition format_d :: "int \<Rightarrow> string" where
  "format_d i = (if i < 0 then CHR ''-'' # dec (nat (- i)) else dec (nat i))"

definition format_0d :: "nat \<Rightarrow> int \<Rightarrow> string" where
  "format_0d w i =
     (if i < 0 then CHR ''-'' # zfill (w - 1) (dec (nat (- i))) else zfill w (dec (nat i)))"

section \<open>Paths\<close>

text \<open>
  \<^verbatim>\<open>posixpath.join(a, *p)\<close> (which is also \<^verbatim>\<open>os.path.join\<close> here): a component that
  starts with a slash replaces what came before, otherwise it is appended after one
  slash.
\<close>

definition join2 :: "string \<Rightarrow> string \<Rightarrow> string" where
  "join2 path b =
     (if b \<noteq> [] \<and> hd b = CHR ''/'' then b
      else if path = [] \<or> last path = CHR ''/'' then path @ b
      else path @ ''/'' @ b)"

definition posixpath_join :: "string \<Rightarrow> string list \<Rightarrow> string" where
  "posixpath_join a p = foldl join2 a p"

definition HOST :: string where
  "HOST = ''https://n5eil01u.ecs.nsidc.org''"

section \<open>The last-modified text: \<^verbatim>\<open>time.strptime\<close> and \<^verbatim>\<open>calendar.timegm\<close>\<close>

text \<open>
  \<^verbatim>\<open>str.isspace\<close> on ASCII, used by \<^verbatim>\<open>rstrip()\<close> and by \<^verbatim>\<open>\s\<close>.
\<close>

definition is_space :: "char \<Rightarrow> bool" where
  "is_space c =
     (c \<in> {CHR '' '', CHR 0x09, CHR 0x0A, CHR 0x0B, CHR 0x0C, CHR 0x0D,
            CHR 0x1C, CHR 0x1D, CHR 0x1E, CHR 0x1F})"

definition rstrip :: "string \<Rightarrow> string" where
  "rstrip s = rev (dropWhile is_space (rev s))"

text \<open>
  \<^verbatim>\<open>time.strptime(s, '%Y-%m-%d %H:%M')\<close> turns the format into the regular expression
  \<^verbatim>\<open>(?P<Y>\d\d\d\d)-(?P<m>1[0-2]|0[1-9]|[1-9])-(?P<d>3[0-1]|[1-2]\d|0[1-9]|[1-9]| [1-9])\s+(?P<H>2[0-3]|[0-1]\d|\d):(?P<M>[0-5]\d|\d)\<close>,
  takes its first match at the start of \<^verbatim>\<open>s\<close> and raises \<^verbatim>\<open>ValueError\<close> when there is
  none, when text remains after the match, or when the fields are not a date of the
  calendar. A directive is modelled by the list of its matches at the start of a
  string, in the order the backtracking matcher tries them, each with the text that
  follows it.
\<close>

definition two :: "string \<Rightarrow> string \<Rightarrow> string \<Rightarrow> (nat \<times> string) list" where
  "two xs ys s =
     (case s of
        a # b # r \<Rightarrow>
          if a \<in> set xs \<and> b \<in> set ys then [(10 * digit_val a + digit_val b, r)] else []
      | _ \<Rightarrow> [])"

definition one :: "string \<Rightarrow> string \<Rightarrow> (nat \<times> string) list" where
  "one xs s = (case s of a # r \<Rightarrow> if a \<in> set xs then [(digit_val a, r)] else [] | _ \<Rightarrow> [])"

definition lit :: "char \<Rightarrow> string \<Rightarrow> string list" where
  "lit c s = (case s of a # r \<Rightarrow> if a = c then [r] else [] | _ \<Rightarrow> [])"

fun spaces1 :: "string \<Rightarrow> string list" where
  "spaces1 [] = []"
| "spaces1 (c # cs) = (if is_space c then spaces1 cs @ [cs] else [])"

definition dir_Y :: "string \<Rightarrow> (nat \<times> string) list" where
  "dir_Y s =
     (case s of
        a # b # c # d # r \<Rightarrow>
          if is_digit a \<and> is_digit b \<and> is_digit c \<and> is_digit d
          then [(1000 * digit_val a + 100 * digit_val b + 10 * digit_val c + digit_val d, r)]
          else []
      | _ \<Rightarrow> [])"

definition dir_m :: "string \<Rightarrow> (nat \<times> string) list" where
  "dir_m s = two ''1'' ''012'' s @ two ''0'' ''123456789'' s @ one ''123456789'' s"

definition dir_d :: "string \<Rightarrow> (nat \<times> string) list" where
  "dir_d s =
     two ''3'' ''01'' s @ two ''12'' ''0123456789'' s @ two ''0'' ''123456789'' s
     @ one ''123456789'' s @ concat (map (one ''123456789'') (lit (CHR '' '') s))"

definition dir_H :: "string \<Rightarrow> (nat \<times> string) list" where
  "dir_H s = two ''2'' ''0123'' s @ two ''01'' ''0123456789'' s @ one ''0123456789'' s"

definition dir_M :: "string \<Rightarrow> (nat \<times> string) list" where
  "dir_M s = two ''012345'' ''0123456789'' s @ one ''0123456789'' s"

definition after :: "'a list \<Rightarrow> ('a \<Rightarrow> 'b list) \<Rightarrow> 'b list" where
  "after xs f = concat (map f xs)"

text \<open>All matches of the whole format, first the one \<^verbatim>\<open>re\<close> finds.\<close>

definition format_matches :: "string \<Rightarrow> ((nat \<times> nat \<times> nat \<times> nat \<times> nat) \<times> string) list" where
  "format_matches s =
     after (dir_Y s) (\<lambda>(Y, r0). after (lit (CHR ''-'') r0) (\<lambda>r1.
     after (dir_m r1) (\<lambda>(m, r2). after (lit (CHR ''-'') r2) (\<lambda>r3.
     after (dir_d r3) (\<lambda>(d, r4). after (spaces1 r4) (\<lambda>r5.
     after (dir_H r5) (\<lambda>(H, r6). after (lit (CHR '':'') r6) (\<lambda>r7.
     after (dir_M r7) (\<lambda>(M, r8). [((Y, m, d, H, M), r8)])))))))))"

text \<open>The calendar of \<^verbatim>\<open>datetime.date\<close>.\<close>

definition is_leap :: "int \<Rightarrow> bool" where
  "is_leap year = (year mod 4 = 0 \<and> (year mod 100 \<noteq> 0 \<or> year mod 400 = 0))"

definition days_before_year :: "int \<Rightarrow> int" where
  "days_before_year year =
     (let y = year - 1 in y * 365 + y div 4 - y div 100 + y div 400)"

definition DAYS_IN_MONTH :: "int list" where
  "DAYS_IN_MONTH = [-1, 31, 28, 31, 30, 31, 30, 31, 31, 30, 31, 30, 31]"

definition DAYS_BEFORE_MONTH :: "int list" where
  "DAYS_BEFORE_MONTH = [-1, 0, 31, 59, 90, 120, 151, 181, 212, 243, 273, 304, 334]"

definition days_in_month :: "int \<Rightarrow> nat \<Rightarrow> int" where
  "days_in_month year month =
     (if month = 2 \<and> is_leap year then 29 else DAYS_IN_MONTH ! month)"

definition days_before_month :: "int \<Rightarrow> nat \<Rightarrow> int" where
  "days_before_month year month =
     DAYS_BEFORE_MONTH ! month + (if month > 2 \<and> is_leap year then 1 else 0)"

definition ymd2ord :: "int \<Rightarrow> nat \<Rightarrow> int \<Rightarrow> int" where
  "ymd2ord year month day = days_before_year year + days_before_month year month + day"

text \<open>The date that \<^verbatim>\<open>datetime.date(year, month, day)\<close> accepts.\<close>

definition check_date_fields :: "int \<Rightarrow> nat \<Rightarrow> int \<Rightarrow> bool" where
  "check_date_fields year month day =
     (1 \<le> year \<and> year \<le> 9999 \<and> 1 \<le> month \<and> month \<le> 12
      \<and> 1 \<le> day \<and> day \<le> days_in_month year month)"

type_synonym struct_time = "int \<times> nat \<times> int \<times> int \<times> int \<times> int"

definition strptime :: "string \<Rightarrow> py_error + struct_time" where
  "strptime s =
     (case format_matches s of
        [] \<Rightarrow> Inl ValueError
      | ((Y, m, d, H, M), rest) # _ \<Rightarrow>
          if rest \<noteq> [] then Inl ValueError
          else if check_date_fields (int Y) m (int d)
            then Inr (int Y, m, int d, int H, int M, 0)
          else Inl ValueError)"

definition EPOCH_ORD :: int where
  "EPOCH_ORD = ymd2ord 1970 1 1"

fun timegm :: "struct_time \<Rightarrow> int" where
  "timegm (year, month, day, hour, minute, second) =
     (let days = ymd2ord year month 1 - EPOCH_ORD + day - 1;
          hours = days * 24 + hour;
          minutes = hours * 60 + minute
      in minutes * 60 + second)"

text \<open>Lines 204 and 205.\<close>

definition remote_mtime_of :: "string \<Rightarrow> py_error + int" where
  "remote_mtime_of txt =
     (case strptime (rstrip txt) of Inl e \<Rightarrow> Inl e | Inr LMD \<Rightarrow> Inr (timegm LMD))"

section \<open>The two matchers\<close>

text \<open>
  The parameters of \<^verbatim>\<open>nsidc_icesat2_sync\<close>, but for the user and the password, which
  the run hands to the opener and reads nowhere else.
\<close>

record config =
  ddir :: string
  PRODUCTS :: "string list"
  RELEASE :: string
  VERSIONS :: "int list"
  GRANULES :: "int list"
  TRACKS :: "int list"
  YEARS :: "int list option"
  SUBDIRECTORY :: "string list option"
  AUXILIARY :: bool
  LOG :: bool
  LIST :: bool
  MODE :: "nat option"
  CLOBBER :: bool

text \<open>Lines 150 to 155, and the pattern of line 180 for the product \<^verbatim>\<open>p\<close>.\<close>

definition regex_track :: "config \<Rightarrow> string" where
  "regex_track cfg = join ''|'' (map (format_0d 4) (TRACKS cfg))"

definition regex_granule :: "config \<Rightarrow> string" where
  "regex_granule cfg = join ''|'' (map (format_0d 2) (GRANULES cfg))"

definition regex_version :: "config \<Rightarrow> string" where
  "regex_version cfg = join ''|'' (map (format_0d 2) (VERSIONS cfg))"

definition regex_suffix :: "config \<Rightarrow> string" where
  "regex_suffix cfg = (if AUXILIARY cfg then ''(.*?)'' else ''(h5)'')"

definition remote_regex_pattern ::
    "string \<Rightarrow> string \<Rightarrow> string \<Rightarrow> string \<Rightarrow> string \<Rightarrow> string \<Rightarrow> string" where
  "remote_regex_pattern a0 a1 a2 a3 a4 a5 =
     a0 @ ''_('' @ bsd @ ''{4})('' @ bsd @ ''{2})('' @ bsd @ ''{2})('' @ bsd @ ''{2})(''
        @ bsd @ ''{2})('' @ bsd @ ''{2})_('' @ a1 @ '')('' @ bsd @ ''{2})('' @ a2 @ '')_(''
        @ a3 @ '')_('' @ a4 @ '')(.*?).'' @ a5"

definition R1 :: "config \<Rightarrow> string \<Rightarrow> rexp option" where
  "R1 cfg p =
     re_compile (remote_regex_pattern p (regex_track cfg) (regex_granule cfg) (RELEASE cfg)
                   (regex_version cfg) (regex_suffix cfg))"

text \<open>
  Lines 158 to 167. \<^verbatim>\<open>if SUBDIRECTORY\<close> holds for a list that is not empty.
  \<^verbatim>\<open>YEARS\<close> is \<^verbatim>\<open>None\<close> or the numpy array that \<^verbatim>\<open>main\<close> builds, and the truth value of
  a numpy array is that of its element when it has one, false when it has none, and a
  \<^verbatim>\<open>ValueError\<close> when it has several.
\<close>

definition truth_YEARS :: "int list option \<Rightarrow> py_error + bool" where
  "truth_YEARS ys =
     (case ys of
        None \<Rightarrow> Inr False
      | Some [] \<Rightarrow> Inr False
      | Some [y] \<Rightarrow> Inr (y \<noteq> 0)
      | Some _ \<Rightarrow> Inl ValueError)"

definition R2_pattern :: "config \<Rightarrow> py_error + string" where
  "R2_pattern cfg =
     (if SUBDIRECTORY cfg \<noteq> None \<and> SUBDIRECTORY cfg \<noteq> Some []
      then Inr (''('' @ join ''|'' (the (SUBDIRECTORY cfg)) @ '')'')
      else (case truth_YEARS (YEARS cfg) of
              Inl e \<Rightarrow> Inl e
            | Inr True \<Rightarrow>
                Inr (''('' @ join ''|'' (map format_d (the (YEARS cfg))) @ '').(''
                       @ bsd @ ''+).('' @ bsd @ ''+)'')
            | Inr False \<Rightarrow> Inr (''('' @ bsd @ ''+).('' @ bsd @ ''+).('' @ bsd @ ''+)'')))"

definition R2 :: "config \<Rightarrow> py_error + rexp" where
  "R2 cfg =
     (case R2_pattern cfg of
        Inl e \<Rightarrow> Inl e
      | Inr pat \<Rightarrow> (case re_compile pat of None \<Rightarrow> Inl ReError | Some r \<Rightarrow> Inr r))"

section \<open>\<^verbatim>\<open>nsidc_icesat2_sync\<close>\<close>

text \<open>A \<^verbatim>\<open>for\<close> loop whose body may raise: the exception ends the loop.\<close>

fun for_each :: "('a \<Rightarrow> state \<Rightarrow> outcome) \<Rightarrow> 'a list \<Rightarrow> state \<Rightarrow> outcome" where
  "for_each body [] st = (None, st)"
| "for_each body (x # xs) st =
     (case body x st of
        (None, st') \<Rightarrow> for_each body xs st'
      | (Some e, st') \<Rightarrow> (Some e, st'))"

text \<open>
  Lines 108 to 116: the name of the log file, and \<^verbatim>\<open>fid\<close>, which is the log file under
  the key of its path or the standard output.
\<close>

definition LOGFILE :: "world \<Rightarrow> string" where
  "LOGFILE w = ''NSIDC_IceSat-2_sync_'' @ today w @ ''.log''"

definition log_sink :: "world \<Rightarrow> config \<Rightarrow> sink" where
  "log_sink w cfg =
     (if LOG cfg then
        (case resolve (join2 (ddir cfg) (LOGFILE w)) of
           Some k \<Rightarrow> LogFile k
         | None \<Rightarrow> Stdout)
      else Stdout)"

text \<open>
  Lines 105 to 116: the root directory, then the log file, opened with \<^verbatim>\<open>'w'\<close>, and
  its first line. What \<^verbatim>\<open>fid\<close> has received starts empty.
\<close>

definition start :: "world \<Rightarrow> config \<Rightarrow> state \<Rightarrow> outcome" where
  "start w cfg st =
     (case makedirs w (MODE cfg) (ddir cfg) (st\<lparr>fid := []\<rparr>) of
        (Some e, st1) \<Rightarrow> (Some e, st1)
      | (None, st1) \<Rightarrow>
          if LOG cfg then
            (case open_w (wall_clock w) (join2 (ddir cfg) (LOGFILE w)) (fs st1) of
               Inl e \<Rightarrow> (Some e, st1)
             | Inr (k, f) \<Rightarrow>
                 (None, print_to (LogFile k) (wall_clock w) (Title (today w)) (st1\<lparr>fs := f\<rparr>)))
          else (None, st1))"

text \<open>Lines 200 to 208: the body of the loop over the matched lines of a page.\<close>

definition sync_file ::
    "world \<Rightarrow> config \<Rightarrow> string \<Rightarrow> string \<Rightarrow> string \<Rightarrow> string list \<Rightarrow> string list
      \<Rightarrow> nat \<Rightarrow> state \<Rightarrow> outcome" where
  "sync_file w cfg d sd local_dir colnames collastmod i st =
     (let remote_file = posixpath_join d [sd, colnames ! i];
          local_file = join2 local_dir (colnames ! i)
      in if i < length collastmod then
           (case remote_mtime_of (collastmod ! i) of
              Inl e \<Rightarrow> (Some e, st)
            | Inr remote_mtime \<Rightarrow>
                http_pull_file w (log_sink w cfg) remote_file remote_mtime local_file
                  (LIST cfg) (CLOBBER cfg) (MODE cfg) st)
         else (Some IndexError, st))"

text \<open>Line 197: the indices of the names that the file matcher accepts.\<close>

definition remote_file_lines :: "rexp \<Rightarrow> string list \<Rightarrow> nat list" where
  "remote_file_lines r colnames = filter (\<lambda>i. re_match r (colnames ! i)) [0..<length colnames]"

text \<open>Lines 187 to 208: the body of the loop over the subdirectories.\<close>

definition sync_subdir ::
    "world \<Rightarrow> config \<Rightarrow> rexp \<Rightarrow> string \<Rightarrow> string \<Rightarrow> string \<Rightarrow> state \<Rightarrow> outcome" where
  "sync_subdir w cfg r1 d DIRECTORY sd st =
     (let local_dir = join2 DIRECTORY sd
      in case makedirs w (MODE cfg) local_dir st of
           (Some e, st1) \<Rightarrow> (Some e, st1)
         | (None, st1) \<Rightarrow>
             (case index_page w (posixpath_join d [sd]) of
                Inl e \<Rightarrow> (Some e, st1)
              | Inr (colnames, collastmod) \<Rightarrow>
                  for_each (sync_file w cfg d sd local_dir colnames collastmod)
                    (remote_file_lines r1 colnames) st1))"

text \<open>Lines 171 to 208: the body of the loop over the products.\<close>

definition sync_product :: "world \<Rightarrow> config \<Rightarrow> rexp \<Rightarrow> string \<Rightarrow> state \<Rightarrow> outcome" where
  "sync_product w cfg r2 p st =
     (let st1 = print_to (log_sink w cfg) (wall_clock w) (Product p) st;
          DIRECTORY = join2 (ddir cfg) (p @ ''.'' @ RELEASE cfg);
          d = posixpath_join HOST [''ATLAS'', p @ ''.'' @ RELEASE cfg]
      in case R1 cfg p of
           None \<Rightarrow> (Some ReError, st1)
         | Some r1 \<Rightarrow>
             (case index_page w d of
                Inl e \<Rightarrow> (Some e, st1)
              | Inr (colnames, collastmod) \<Rightarrow>
                  for_each (sync_subdir w cfg r1 d DIRECTORY) (filter (re_match r2) colnames) st1))"

text \<open>
  Lines 105 to 215. After the loop the log file is closed and \<^verbatim>\<open>os.chmod\<close> is called
  on it, which raises for the mode \<^verbatim>\<open>None\<close>.
\<close>

definition nsidc_icesat2_sync :: "world \<Rightarrow> config \<Rightarrow> state \<Rightarrow> outcome" where
  "nsidc_icesat2_sync w cfg st =
     (case start w cfg st of
        (Some e, st1) \<Rightarrow> (Some e, st1)
      | (None, st1) \<Rightarrow>
          (case R2 cfg of
             Inl e \<Rightarrow> (Some e, st1)
           | Inr r2 \<Rightarrow>
               (case for_each (sync_product w cfg r2) (PRODUCTS cfg) st1 of
                  (Some e, st2) \<Rightarrow> (Some e, st2)
                | (None, st2) \<Rightarrow>
                    if LOG cfg \<and> MODE cfg = None then (Some TypeError, st2) else (None, st2))))"

section \<open>Example archives\<close>

text \<open>
  A configuration as \<^verbatim>\<open>--release=003 --track=235 --granule=2 --version=1 ATL08\<close>
  gives it (\<^verbatim>\<open>main\<close> sets the mode \<^verbatim>\<open>0o775\<close>), the same for the two products
  \<^verbatim>\<open>ATL07 ATL08\<close>, an empty local file system, and the names of one remote file.
\<close>

definition example_config :: config where
  "example_config =
     \<lparr>ddir = ''data'', PRODUCTS = [''ATL08''], RELEASE = ''003'', VERSIONS = [1],
      GRANULES = [2], TRACKS = [235], YEARS = None, SUBDIRECTORY = None, AUXILIARY = False,
      LOG = False, LIST = False, MODE = Some 509, CLOBBER = False\<rparr>"

definition two_products :: config where
  "two_products = example_config\<lparr>PRODUCTS := [''ATL07'', ''ATL08'']\<rparr>"

definition empty_state :: state where
  "empty_state = \<lparr>fs = Map.empty, fid = []\<rparr>"

definition ATL08_page :: string where
  "ATL08_page = ''https://n5eil01u.ecs.nsidc.org/ATLAS/ATL08.003''"

definition ATL08_day_page :: string where
  "ATL08_day_page = ''https://n5eil01u.ecs.nsidc.org/ATLAS/ATL08.003/2018.10.14/''"

definition ATL08_name :: string where
  "ATL08_name = ''ATL08_20181014001049_02350102_003_01.h5''"


definition ATL08_local :: string where
  "ATL08_local = ''data/ATL08.003/2018.10.14/ATL08_20181014001049_02350102_003_01.h5''"

definition ATL08_key :: key where
  "ATL08_key = [''data'', ''ATL08.003'', ''2018.10.14'', ATL08_name]"

text \<open>
  An archive that serves product \<^verbatim>\<open>ATL08\<close> (one day, one file) and raises for every
  other page, \<^verbatim>\<open>ATL07\<close> among them.
\<close>

definition ATL08_only :: world where
  "ATL08_only =
     \<lparr>index_page = (\<lambda>u. if u = ATL08_page then Inr ([''2018.10.14/''], [])
                        else if u = ATL08_day_page
                          then Inr ([ATL08_name], [''2018-10-15 09:00  ''])
                        else Inl URLError),
      urlopen = (\<lambda>u. Body ''HDF''),
      wall_clock = 1600000000,
      today = ''2020-09-13''\<rparr>"


text \<open>
  What the two XPath queries of lines 194 and 195 return for a page given by its rows,
  each with the \<^verbatim>\<open>href\<close> of its name cell and the text of its last-modified cell, if
  it has one: the names of all rows, and the texts of the rows that have one.
\<close>

definition rows_page :: "(string \<times> string option) list \<Rightarrow> string list \<times> string list" where
  "rows_page rows =
     (map fst rows, concat (map (\<lambda>(n, t). case t of None \<Rightarrow> [] | Some s \<Rightarrow> [s]) rows))"

text \<open>
  The archive \<^verbatim>\<open>ATL08_only\<close> with a day page whose first row, the link to the parent
  directory, has a name and no last-modified text.
\<close>

definition ATL08_parent_row :: world where
  "ATL08_parent_row =
     ATL08_only\<lparr>index_page := (\<lambda>u. if u = ATL08_page then Inr ([''2018.10.14/''], [])
                        else if u = ATL08_day_page
                          then Inr (rows_page [(''/ATLAS/ATL08.003/'', None),
                                               (ATL08_name, Some ''2018-10-15 09:00  '')])
                        else Inl URLError)\<rparr>"

text \<open>
  The same archive with a day page of two files, of which the first has no
  last-modified text.
\<close>

definition ATL08_name2 :: string where
  "ATL08_name2 = ''ATL08_20181014001049_02350202_003_01.h5''"

definition ATL08_local2 :: string where
  "ATL08_local2 = ''data/ATL08.003/2018.10.14/ATL08_20181014001049_02350202_003_01.h5''"

definition ATL08_untimed_row :: world where
  "ATL08_untimed_row =
     ATL08_only\<lparr>index_page := (\<lambda>u. if u = ATL08_page then Inr ([''2018.10.14/''], [])
                        else if u = ATL08_day_page
                          then Inr (rows_page [(ATL08_name, None),
                                               (ATL08_name2, Some ''2018-10-16 10:30  '')])
                        else Inl URLError)\<rparr>"



definition ATL08_refused :: world where
  "ATL08_refused = ATL08_only\<lparr>urlopen := (\<lambda>u. Refused)\<rparr>"

text \<open>The example configuration as a dry run, with \<^verbatim>\<open>--clobber\<close>, and with \<^verbatim>\<open>--log\<close>.\<close>

definition dry_config :: config where
  "dry_config = example_config\<lparr>LIST := True\<rparr>"

definition clobber_config :: config where
  "clobber_config = example_config\<lparr>CLOBBER := True\<rparr>"

definition log_config :: config where
  "log_config = example_config\<lparr>LOG := True\<rparr>"

definition ATL08_log :: key where
  "ATL08_log = [''data'', ''NSIDC_IceSat-2_sync_2020-09-13.log'']"

section \<open>What a run reports and how it changes the file system\<close>



fun is_transfer :: "event \<Rightarrow> bool" where
  "is_transfer (Transfer remote_file local_file label) = True"
| "is_transfer (Product p) = False"
| "is_transfer (Title day) = False"

definition transfers :: "event list \<Rightarrow> event list" where
  "transfers es = filter is_transfer es"


text \<open>
  \<^verbatim>\<open>unpaired_row w cfg p sd i\<close>: the listing of subdirectory \<^verbatim>\<open>sd\<close> of the requested
  product \<^verbatim>\<open>p\<close>, a subdirectory that the subdirectory matcher accepts, has at position
  \<^verbatim>\<open>i\<close> a name that the file matcher accepts, and has no last-modified text at that
  position.
\<close>

definition unpaired_row :: "world \<Rightarrow> config \<Rightarrow> string \<Rightarrow> string \<Rightarrow> nat \<Rightarrow> bool" where
  "unpaired_row w cfg p sd i =
     (let d = posixpath_join HOST [''ATLAS'', p @ ''.'' @ RELEASE cfg] in
      case (R1 cfg p, R2 cfg, index_page w d, index_page w (posixpath_join d [sd])) of
        (Some r1, Inr r2, Inr (dirs, x), Inr (colnames, collastmod)) \<Rightarrow>
          p \<in> set (PRODUCTS cfg) \<and> sd \<in> set dirs \<and> re_match r2 sd
          \<and> i < length colnames \<and> re_match r1 (colnames ! i) \<and> length collastmod \<le> i
      | _ \<Rightarrow> False)"

section \<open>Properties of \<^verbatim>\<open>http_pull_file\<close>\<close>

declare dec.simps [simp del]









lemma fid_print_to [simp]: "fid (print_to out now e st) = fid st @ [e]"
  by (simp add: print_to_def split: sink.splits)




section \<open>Loops and errors\<close>

lemma for_each_append:
  "for_each body (xs @ ys) st =
     (case for_each body xs st of
        (None, st') \<Rightarrow> for_each body ys st'
      | (Some e, st') \<Rightarrow> (Some e, st'))"
  by (induction xs arbitrary: st) (auto split: prod.splits option.splits)

section \<open>Claim C3: a product whose listing cannot be fetched\<close>

text \<open>
  Claim C3 says that the run goes on with the remaining products when the listing of
  one product cannot be fetched. The program has no handler around line 182: in the
  archive \<^verbatim>\<open>ATL08_only\<close>, asked for \<^verbatim>\<open>ATL07\<close> and \<^verbatim>\<open>ATL08\<close>, the run ends with the error
  of \<^verbatim>\<open>ATL07\<close>, has printed nothing for \<^verbatim>\<open>ATL08\<close> and has not written its file, which
  the run for \<^verbatim>\<open>ATL08\<close> alone writes.
\<close>

theorem C3_counterexample:
  "fst (nsidc_icesat2_sync ATL08_only two_products empty_state) = Some URLError
   \<and> fid (snd (nsidc_icesat2_sync ATL08_only two_products empty_state)) = [Product ''ATL07'']
   \<and> stat (fs (snd (nsidc_icesat2_sync ATL08_only two_products empty_state))) ATL08_local = None
   \<and> stat (fs (snd (nsidc_icesat2_sync ATL08_only example_config empty_state))) ATL08_local
       = Some (File 1539594000 ''HDF'')"
  by code_simp

text \<open>
  Claim C3, amended. When the listing of product \<^verbatim>\<open>p\<close> cannot be fetched, the error
  ends the run at \<^verbatim>\<open>p\<close>: the root directory and the log have been set up, the
  products before \<^verbatim>\<open>p\<close> have been processed, the line \<^verbatim>\<open>PRODUCT=p\<close> has been printed,
  and the result does not depend on the products after \<^verbatim>\<open>p\<close>, none of which is
  processed.
\<close>

theorem C3_listing_error_ends_run:
  assumes "PRODUCTS cfg = ps1 @ p # ps2"
    and "R2 cfg = Inr r2"
    and "start w cfg st = (None, st0)"
    and "for_each (sync_product w cfg r2) ps1 st0 = (None, st')"
    and "R1 cfg p \<noteq> None"
    and "index_page w (posixpath_join HOST [''ATLAS'', p @ ''.'' @ RELEASE cfg]) = Inl e"
  shows "nsidc_icesat2_sync w cfg st
           = (Some e, print_to (log_sink w cfg) (wall_clock w) (Product p) st')"
proof -
  have "sync_product w cfg r2 p st'
          = (Some e, print_to (log_sink w cfg) (wall_clock w) (Product p) st')"
    using assms(5,6) by (auto simp: sync_product_def Let_def)
  then show ?thesis
    using assms(1,2,3,4) by (simp add: nsidc_icesat2_sync_def for_each_append)
qed

theorem C3_listing_error_ends_run_witness:
  "PRODUCTS two_products = [] @ ''ATL07'' # [''ATL08'']
   \<and> index_page ATL08_only (posixpath_join HOST [''ATLAS'', ''ATL07'' @ ''.'' @ RELEASE two_products])
       = Inl URLError
   \<and> fst (start ATL08_only two_products empty_state) = None
   \<and> nsidc_icesat2_sync ATL08_only two_products empty_state
       = (Some URLError,
          print_to (log_sink ATL08_only two_products) (wall_clock ATL08_only) (Product ''ATL07'')
            (snd (start ATL08_only two_products empty_state)))"
proof -
  have h1: "PRODUCTS two_products = [] @ ''ATL07'' # [''ATL08'']"
    by code_simp
  have "\<not> isl (R2 two_products)"
    by code_simp
  then obtain r2 where h2: "R2 two_products = Inr r2"
    by (cases "R2 two_products") auto
  have s: "fst (start ATL08_only two_products empty_state) = None"
    by code_simp
  then have h3: "start ATL08_only two_products empty_state
                   = (None, snd (start ATL08_only two_products empty_state))"
    by (metis prod.collapse)
  have h4: "for_each (sync_product ATL08_only two_products r2) []
              (snd (start ATL08_only two_products empty_state))
            = (None, snd (start ATL08_only two_products empty_state))"
    by simp
  have h5: "R1 two_products ''ATL07'' \<noteq> None"
    by code_simp
  have h6: "index_page ATL08_only
              (posixpath_join HOST [''ATLAS'', ''ATL07'' @ ''.'' @ RELEASE two_products])
            = Inl URLError"
    by code_simp
  show ?thesis
    using C3_listing_error_ends_run [OF h1 h2 h3 h4 h5 h6] h1 h6 s by simp
qed

lemma for_each_error:
  "for_each body xs st = (Some e, s') \<Longrightarrow> \<exists>x \<in> set xs. \<exists>s. body x s = (Some e, s')"
proof (induction xs arbitrary: st)
  case Nil
  then show ?case by simp
next
  case (Cons x xs)
  show ?case
  proof (cases "body x st")
    case (Pair r s1)
    show ?thesis
    proof (cases r)
      case None
      then have "for_each body xs s1 = (Some e, s')" using Cons.prems Pair by simp
      from Cons.IH [OF this] show ?thesis by auto
    next
      case (Some e')
      then have "body x st = (Some e, s')" using Cons.prems Pair by simp
      then show ?thesis by auto
    qed
  qed
qed

lemma for_each_ok:
  "for_each body xs st = (None, s') \<Longrightarrow> x \<in> set xs \<Longrightarrow> \<exists>s s''. body x s = (None, s'')"
proof (induction xs arbitrary: st)
  case Nil
  then show ?case by simp
next
  case (Cons y ys)
  show ?case
  proof (cases "body y st")
    case (Pair r s1)
    with Cons.prems have r: "r = None" and rest: "for_each body ys s1 = (None, s')"
      by (auto split: option.splits)
    show ?thesis
    proof (cases "x = y")
      case True
      then show ?thesis using Pair r by auto
    next
      case False
      then have "x \<in> set ys" using Cons.prems by simp
      from Cons.IH [OF rest this] show ?thesis .
    qed
  qed
qed

lemma strptime_error: "strptime s = Inl e \<Longrightarrow> e = ValueError"
  by (auto simp: strptime_def split: list.splits prod.splits if_splits)

lemma remote_mtime_of_error: "remote_mtime_of s = Inl e \<Longrightarrow> e = ValueError"
  by (auto simp: remote_mtime_of_def split: sum.splits dest: strptime_error)

lemma open_w_error:
  "open_w now p f = Inl e \<Longrightarrow>
     e \<in> {FileNotFoundError, NotADirectoryError, IsADirectoryError}"
  by (auto simp: open_w_def split: option.splits node.splits if_splits)

lemma write_local_error:
  "write_local w r b t lf m st = (Some e, s) \<Longrightarrow>
     e \<in> {FileNotFoundError, NotADirectoryError, IsADirectoryError, ConnectionError, TypeError}"
  by (auto simp: write_local_def split: sum.splits prod.splits if_splits option.splits
      dest: open_w_error)

lemma fetch_error:
  "fetch w rf t lf m st = (Some e, s) \<Longrightarrow>
     e \<in> {URLError, FileNotFoundError, NotADirectoryError, IsADirectoryError, ConnectionError,
          TypeError}"
  by (auto simp: fetch_def split: response.splits dest: write_local_error)

lemma http_pull_file_error:
  "http_pull_file w out rf t lf l c m st = (Some e, s) \<Longrightarrow>
     e \<in> {URLError, FileNotFoundError, NotADirectoryError, IsADirectoryError, ConnectionError,
          TypeError}"
  by (auto simp: http_pull_file_def Let_def split: prod.splits if_splits dest: fetch_error)

lemma mkdir_error:
  "mkdir now k f = Inl e \<Longrightarrow> e \<in> {FileExistsError, FileNotFoundError, NotADirectoryError}"
  by (auto simp: mkdir_def split: if_splits)

lemma mkdir_chain_error:
  "mkdir_chain now ks f = (Some e, g) \<Longrightarrow>
     e \<in> {FileExistsError, FileNotFoundError, NotADirectoryError}"
  by (induction ks arbitrary: f)
    (auto split: option.splits node.splits sum.splits dest: mkdir_error)

lemma makedirs_error:
  "makedirs w m p st = (Some e, s) \<Longrightarrow>
     e \<in> {FileExistsError, FileNotFoundError, NotADirectoryError, TypeError}"
  by (auto simp: makedirs_def split: if_splits option.splits prod.splits sum.splits
      dest: mkdir_chain_error mkdir_error)

lemma start_error:
  "start w cfg st = (Some e, s) \<Longrightarrow>
     e \<in> {FileExistsError, FileNotFoundError, NotADirectoryError, TypeError, IsADirectoryError}"
  by (auto simp: start_def split: if_splits option.splits prod.splits sum.splits
      dest: makedirs_error open_w_error)

lemma R2_error: "R2 cfg = Inl e \<Longrightarrow> e \<in> {ValueError, ReError}"
  by (auto simp: R2_def R2_pattern_def truth_YEARS_def
      split: sum.splits option.splits if_splits list.splits bool.splits)

lemma remote_file_lines_iff:
  "i \<in> set (remote_file_lines r colnames) \<longleftrightarrow> i < length colnames \<and> re_match r (colnames ! i)"
  by (auto simp: remote_file_lines_def)

lemma sync_file_IndexError:
  "sync_file w cfg d sd local_dir colnames collastmod i st = (Some IndexError, s)
     \<Longrightarrow> length collastmod \<le> i"
  by (auto simp: sync_file_def Let_def split: if_splits sum.splits
      dest: remote_mtime_of_error http_pull_file_error)

lemma sync_file_None:
  "sync_file w cfg d sd local_dir colnames collastmod i st = (None, s)
     \<Longrightarrow> i < length collastmod"
  by (auto simp: sync_file_def Let_def split: if_splits)

section \<open>Claim C8: rows without a last-modified text\<close>

lemma run_IndexError:
  assumes run: "nsidc_icesat2_sync w cfg st = (Some IndexError, s)"
    and pages: "\<And>u. index_page w u \<noteq> Inl IndexError"
  shows "\<exists>p sd i. unpaired_row w cfg p sd i"
proof -
  from run obtain s0 where s0: "start w cfg st = (None, s0)"
    by (auto simp: nsidc_icesat2_sync_def split: prod.splits option.splits dest: start_error)
  from run s0 obtain r2 where r2: "R2 cfg = Inr r2"
    by (auto simp: nsidc_icesat2_sync_def split: sum.splits dest: R2_error)
  from run s0 r2 have "for_each (sync_product w cfg r2) (PRODUCTS cfg) s0 = (Some IndexError, s)"
    by (auto simp: nsidc_icesat2_sync_def split: prod.splits option.splits if_splits)
  from for_each_error [OF this] obtain p sp where p: "p \<in> set (PRODUCTS cfg)"
    and sp: "sync_product w cfg r2 p sp = (Some IndexError, s)"
    by auto
  let ?d = "posixpath_join HOST [''ATLAS'', p @ ''.'' @ RELEASE cfg]"
  from sp obtain r1 where r1: "R1 cfg p = Some r1"
    by (auto simp: sync_product_def Let_def split: option.splits)
  from sp r1 pages obtain dirs x where dx: "index_page w ?d = Inr (dirs, x)"
    by (cases "index_page w ?d") (auto simp: sync_product_def Let_def)
  from sp r1 dx have "for_each (sync_subdir w cfg r1 ?d (join2 (ddir cfg) (p @ ''.'' @ RELEASE cfg)))
           (filter (re_match r2) dirs)
           (print_to (log_sink w cfg) (wall_clock w) (Product p) sp) = (Some IndexError, s)"
    by (simp add: sync_product_def Let_def)
  from for_each_error [OF this] obtain sd ss where sd: "sd \<in> set dirs" "re_match r2 sd"
    and ss: "sync_subdir w cfg r1 ?d (join2 (ddir cfg) (p @ ''.'' @ RELEASE cfg)) sd ss
               = (Some IndexError, s)"
    by auto
  let ?ld = "join2 (join2 (ddir cfg) (p @ ''.'' @ RELEASE cfg)) sd"
  from ss obtain s1 where s1: "makedirs w (MODE cfg) ?ld ss = (None, s1)"
    by (auto simp: sync_subdir_def Let_def split: prod.splits option.splits dest: makedirs_error)
  from ss s1 pages obtain cn cl where cc: "index_page w (posixpath_join ?d [sd]) = Inr (cn, cl)"
    by (cases "index_page w (posixpath_join ?d [sd])") (auto simp: sync_subdir_def Let_def)
  from ss s1 cc have "for_each (sync_file w cfg ?d sd ?ld cn cl) (remote_file_lines r1 cn) s1
                        = (Some IndexError, s)"
    by (simp add: sync_subdir_def Let_def)
  from for_each_error [OF this] obtain i sf where i: "i \<in> set (remote_file_lines r1 cn)"
    and sf: "sync_file w cfg ?d sd ?ld cn cl i sf = (Some IndexError, s)"
    by auto
  have "unpaired_row w cfg p sd i"
    using p r1 r2 dx sd cc i sync_file_IndexError [OF sf]
    by (simp add: unpaired_row_def Let_def remote_file_lines_iff)
  then show ?thesis by blast
qed

lemma run_None:
  assumes run: "nsidc_icesat2_sync w cfg st = (None, s)"
  shows "\<not> unpaired_row w cfg p sd i"
proof
  assume u: "unpaired_row w cfg p sd i"
  let ?d = "posixpath_join HOST [''ATLAS'', p @ ''.'' @ RELEASE cfg]"
  let ?ld = "join2 (join2 (ddir cfg) (p @ ''.'' @ RELEASE cfg)) sd"
  from u obtain r1 r2 dirs x cn cl where r1: "R1 cfg p = Some r1" and r2: "R2 cfg = Inr r2"
    and dx: "index_page w ?d = Inr (dirs, x)"
    and cc: "index_page w (posixpath_join ?d [sd]) = Inr (cn, cl)"
    and p: "p \<in> set (PRODUCTS cfg)" and sd: "sd \<in> set dirs" "re_match r2 sd"
    and i: "i < length cn" "re_match r1 (cn ! i)" "length cl \<le> i"
    by (auto simp: unpaired_row_def Let_def split: option.splits sum.splits prod.splits)
  from run obtain s0 where s0: "start w cfg st = (None, s0)"
    by (auto simp: nsidc_icesat2_sync_def split: prod.splits option.splits)
  from run s0 r2 obtain s9 where "for_each (sync_product w cfg r2) (PRODUCTS cfg) s0 = (None, s9)"
    by (auto simp: nsidc_icesat2_sync_def split: prod.splits option.splits if_splits)
  from for_each_ok [OF this p] obtain sp sp' where "sync_product w cfg r2 p sp = (None, sp')"
    by auto
  with r1 dx have "for_each (sync_subdir w cfg r1 ?d (join2 (ddir cfg) (p @ ''.'' @ RELEASE cfg)))
           (filter (re_match r2) dirs)
           (print_to (log_sink w cfg) (wall_clock w) (Product p) sp) = (None, sp')"
    by (simp add: sync_product_def Let_def)
  from for_each_ok [OF this, of sd] sd obtain ss ss'
    where ss: "sync_subdir w cfg r1 ?d (join2 (ddir cfg) (p @ ''.'' @ RELEASE cfg)) sd ss = (None, ss')"
    by auto
  then obtain s1 where s1: "makedirs w (MODE cfg) ?ld ss = (None, s1)"
    by (auto simp: sync_subdir_def Let_def split: prod.splits option.splits)
  from ss s1 cc have "for_each (sync_file w cfg ?d sd ?ld cn cl) (remote_file_lines r1 cn) s1
                        = (None, ss')"
    by (simp add: sync_subdir_def Let_def)
  from for_each_ok [OF this, of i] i obtain sf sf'
    where "sync_file w cfg ?d sd ?ld cn cl i sf = (None, sf')"
    by (auto simp: remote_file_lines_iff)
  from sync_file_None [OF this] i show False by simp
qed

text \<open>
  Claim C8 says that rows without a last-modified cell are tolerated, that such a row
  is never a file candidate, and that the lookup of the last-modified value never
  reads past the end. Lines 194 to 204 take the names and the last-modified texts
  with two XPath queries and use the position of a name as the position of its text.
  On the day page of \<^verbatim>\<open>ATL08_parent_row\<close> the link to the parent directory has no text:
  the text of the file stands at position 0, the file at position 1, and the run ends
  with \<^verbatim>\<open>IndexError\<close> without the file. On the day page of \<^verbatim>\<open>ATL08_untimed_row\<close> the
  first file has no text: it is a file candidate and is transferred with the time of
  the second file, and the lookup for the second file ends the run.
\<close>

theorem C8_counterexample:
  "index_page ATL08_parent_row ATL08_day_page
     = Inr ([''/ATLAS/ATL08.003/'', ATL08_name], [''2018-10-15 09:00  ''])
   \<and> fst (nsidc_icesat2_sync ATL08_parent_row example_config empty_state) = Some IndexError
   \<and> stat (fs (snd (nsidc_icesat2_sync ATL08_parent_row example_config empty_state))) ATL08_local
       = None
   \<and> index_page ATL08_untimed_row ATL08_day_page
       = Inr ([ATL08_name, ATL08_name2], [''2018-10-16 10:30  ''])
   \<and> remote_mtime_of ''2018-10-16 10:30  '' = Inr 1539685800
   \<and> fst (nsidc_icesat2_sync ATL08_untimed_row example_config empty_state) = Some IndexError
   \<and> stat (fs (snd (nsidc_icesat2_sync ATL08_untimed_row example_config empty_state))) ATL08_local
       = Some (File 1539685800 ''HDF'')
   \<and> stat (fs (snd (nsidc_icesat2_sync ATL08_untimed_row example_config empty_state))) ATL08_local2
       = None"
  by code_simp

text \<open>
  Claim C8, amended. Whether a row is a file candidate depends on its name alone: the
  candidates are the positions of the names that the file matcher accepts. The
  last-modified value of the candidate at position \<^verbatim>\<open>i\<close> is the text at position \<^verbatim>\<open>i\<close>
  of the last-modified texts of the page, and the lookup raises \<^verbatim>\<open>IndexError\<close> when
  the page has at most \<^verbatim>\<open>i\<close> texts. A run that ends without error has met no accepted
  name without a text at its position, on any page of an accepted subdirectory of a
  requested product; and when no listing request raises \<^verbatim>\<open>IndexError\<close> itself, a run
  ends with \<^verbatim>\<open>IndexError\<close> only where a page has such a name.
\<close>

theorem C8_rows_and_texts:
  "(i \<in> set (remote_file_lines r colnames) \<longleftrightarrow> i < length colnames \<and> re_match r (colnames ! i))
   \<and> (i < length collastmod \<and> remote_mtime_of (collastmod ! i) = Inr t \<longrightarrow>
        sync_file w cfg d sd local_dir colnames collastmod i st
          = http_pull_file w (log_sink w cfg) (posixpath_join d [sd, colnames ! i]) t
              (join2 local_dir (colnames ! i)) (LIST cfg) (CLOBBER cfg) (MODE cfg) st)
   \<and> (length collastmod \<le> i \<longrightarrow>
        sync_file w cfg d sd local_dir colnames collastmod i st = (Some IndexError, st))
   \<and> (fst (nsidc_icesat2_sync w cfg st) = None \<longrightarrow> \<not> unpaired_row w cfg p' sd' i')
   \<and> (fst (nsidc_icesat2_sync w cfg st) = Some IndexError
        \<and> (\<forall>u. index_page w u \<noteq> Inl IndexError)
      \<longrightarrow> (\<exists>p sd i. unpaired_row w cfg p sd i))"
proof -
  have 4: "fst (nsidc_icesat2_sync w cfg st) = None \<longrightarrow> \<not> unpaired_row w cfg p' sd' i'"
    using run_None [of w cfg st "snd (nsidc_icesat2_sync w cfg st)" p' sd' i']
    by (metis prod.collapse)
  have 5: "fst (nsidc_icesat2_sync w cfg st) = Some IndexError
        \<and> (\<forall>u. index_page w u \<noteq> Inl IndexError)
      \<longrightarrow> (\<exists>p sd i. unpaired_row w cfg p sd i)"
    using run_IndexError [of w cfg st "snd (nsidc_icesat2_sync w cfg st)"]
    by (metis prod.collapse)
  show ?thesis
    using 4 5 by (simp add: remote_file_lines_iff sync_file_def Let_def)
qed

theorem C8_rows_and_texts_witness:
  "fst (nsidc_icesat2_sync ATL08_only example_config empty_state) = None
   \<and> \<not> unpaired_row ATL08_only example_config ''ATL08'' ''2018.10.14/'' 0
   \<and> fst (nsidc_icesat2_sync ATL08_parent_row example_config empty_state) = Some IndexError
   \<and> (\<exists>p sd i. unpaired_row ATL08_parent_row example_config p sd i)
   \<and> sync_file ATL08_parent_row example_config ATL08_page ''2018.10.14/''
        ''data/ATL08.003/2018.10.14/'' [''/ATLAS/ATL08.003/'', ATL08_name] [''2018-10-15 09:00  '']
        1 empty_state
       = (Some IndexError, empty_state)
   \<and> sync_file ATL08_only example_config ATL08_page ''2018.10.14/''
        ''data/ATL08.003/2018.10.14/'' [ATL08_name] [''2018-10-15 09:00  ''] 0 empty_state
       = http_pull_file ATL08_only (log_sink ATL08_only example_config)
           (posixpath_join ATL08_page [''2018.10.14/'', [ATL08_name] ! 0]) 1539594000
           (join2 ''data/ATL08.003/2018.10.14/'' ([ATL08_name] ! 0)) (LIST example_config)
           (CLOBBER example_config) (MODE example_config) empty_state"
proof -
  have a: "fst (nsidc_icesat2_sync ATL08_only example_config empty_state) = None"
    by code_simp
  have b: "fst (nsidc_icesat2_sync ATL08_parent_row example_config empty_state) = Some IndexError"
    by code_simp
  have c: "\<forall>u. index_page ATL08_parent_row u \<noteq> Inl IndexError"
    by (simp add: ATL08_parent_row_def ATL08_only_def rows_page_def)
  have d: "remote_mtime_of ([''2018-10-15 09:00  ''] ! 0) = Inr 1539594000"
    by code_simp
  show ?thesis
    using C8_rows_and_texts [of 0 _ "[ATL08_name]" "[''2018-10-15 09:00  '']" 1539594000
        ATL08_only example_config ATL08_page "''2018.10.14/''" "''data/ATL08.003/2018.10.14/''"
        empty_state "''ATL08''" "''2018.10.14/''" 0]
      C8_rows_and_texts [of 1 _ "[''/ATLAS/ATL08.003/'', ATL08_name]" "[''2018-10-15 09:00  '']" _
        ATL08_parent_row example_config ATL08_page "''2018.10.14/''" "''data/ATL08.003/2018.10.14/''"
        empty_state]
      a b c d
    by simp
qed

section \<open>What a run leaves as it is\<close>










lemma makedirs_fid [simp]: "fid (snd (makedirs w m p st)) = fid st"
  by (auto simp: makedirs_def split: option.splits prod.splits sum.splits)



lemma node_at_upd_same: "node_at (f(k \<mapsto> n)) k = Some n"
  by (simp add: node_at_def)











section \<open>Claim C6: a transfer that is interrupted\<close>





end
